theory Spec2Isabelle
  imports Complex_Main
begin

section \<open>JavaScript values, requests and responses\<close>

text \<open>
  The handlers of \<^verbatim>\<open>main.js\<close> and \<^verbatim>\<open>index.js\<close> read fields of the parsed JSON
  body and test them with \<^verbatim>\<open>!x\<close> and \<^verbatim>\<open>x || 1\<close>.  A field is any JSON value, or
  \<^verbatim>\<open>undefined\<close> when the body has no such key.  A number carries the value of the
  parsed double (both zeros are \<open>0\<close>; a JSON body cannot produce NaN).
\<close>

datatype jsval =
    JUndefined
  | JNull
  | JBool bool
  | JNum rat
  | JStr string
  | JArr "jsval list"
  | JObj "(string \<times> jsval) list"

text \<open>ToBoolean: what \<^verbatim>\<open>!x\<close> negates.\<close>

fun truthy :: "jsval \<Rightarrow> bool" where
  "truthy JUndefined = False"
| "truthy JNull = False"
| "truthy (JBool b) = b"
| "truthy (JNum n) = (n \<noteq> 0)"
| "truthy (JStr s) = (s \<noteq> [])"
| "truthy (JArr xs) = True"
| "truthy (JObj kvs) = True"

text \<open>\<^verbatim>\<open>a || b\<close>\<close>

definition js_or :: "jsval \<Rightarrow> jsval \<Rightarrow> jsval" where
  "js_or a b = (if truthy a then a else b)"

text \<open>
  A request as a handler sees it: \<^verbatim>\<open>req.params\<close>, the parameters bound by the
  route's path, and \<^verbatim>\<open>req.body\<close>, the object left by \<^verbatim>\<open>express.json()\<close>.
\<close>

record request =
  params :: "(string \<times> string) list"
  body :: "(string \<times> jsval) list"

text \<open>\<^verbatim>\<open>req.params.id\<close>: \<open>None\<close> is \<^verbatim>\<open>undefined\<close>.\<close>

definition param :: "request \<Rightarrow> string \<Rightarrow> string option" where
  "param req k = map_of (params req) k"

text \<open>\<^verbatim>\<open>const { k } = req.body\<close>\<close>

definition field :: "request \<Rightarrow> string \<Rightarrow> jsval" where
  "field req k = (case map_of (body req) k of None \<Rightarrow> JUndefined | Some v \<Rightarrow> v)"

text \<open>
  \<^verbatim>\<open>res.status(n).json(v)\<close>: the status and what is serialised, an entity, the
  whole collection or a \<^verbatim>\<open>{ message }\<close> object.
\<close>

datatype 'e payload = Entity 'e | Entities "'e list" | Message string

type_synonym 'e response = "nat \<times> 'e payload"

subsection \<open>\<^verbatim>\<open>parseInt(x, 10)\<close>\<close>

text \<open>
  ECMAScript's \<^verbatim>\<open>parseInt\<close> with radix 10: the argument is converted to a string
  (\<^verbatim>\<open>undefined\<close> becomes the string \<^verbatim>\<open>"undefined"\<close>), leading white space is dropped,
  one sign is read, and the longest run of decimal digits that follows is the value.
  With no digit there the result is NaN, here \<open>None\<close>.  The value is kept exact: a
  double is exact below \<open>2 ^ 53\<close>, far above any id a collection can hold.  A
  \<^typ>\<open>char\<close> is a code unit below 256; the white space there is tab, the line
  terminators LF and CR, VT, FF, the space and the no-break space.
\<close>

definition isWhiteSpace :: "char \<Rightarrow> bool" where
  "isWhiteSpace c \<longleftrightarrow> of_char c \<in> {9, 10, 11, 12, 13, 32, 160 :: nat}"

definition isDigit :: "char \<Rightarrow> bool" where
  "isDigit c \<longleftrightarrow> 48 \<le> (of_char c :: nat) \<and> (of_char c :: nat) \<le> 57"

definition digitVal :: "char \<Rightarrow> int" where
  "digitVal c = int (of_char c) - 48"

definition toString :: "string option \<Rightarrow> string" where
  "toString p = (case p of None \<Rightarrow> ''undefined'' | Some s \<Rightarrow> s)"

definition digitsValue :: "string \<Rightarrow> int" where
  "digitsValue ds = foldl (\<lambda>a c. 10 * a + digitVal c) 0 ds"

fun signed_digits :: "string \<Rightarrow> int \<times> string" where
  "signed_digits [] = (1, [])"
| "signed_digits (c # r) =
     (if c = CHR ''-'' then (- 1, r)
      else if c = CHR ''+'' then (1, r)
      else (1, c # r))"

definition parseInt :: "string option \<Rightarrow> int option" where
  "parseInt p =
     (case signed_digits (dropWhile isWhiteSpace (toString p)) of
        (sign, r) \<Rightarrow>
          (if takeWhile isDigit r = [] then None
           else Some (sign * digitsValue (takeWhile isDigit r))))"

subsection \<open>Array operations\<close>

text \<open>
  \<^verbatim>\<open>Array.prototype.find\<close> is \<^const>\<open>find\<close>.  \<^verbatim>\<open>findIndex\<close> gives the first index
  whose element satisfies the predicate, \<open>None\<close> for \<^verbatim>\<open>-1\<close>.  \<^verbatim>\<open>splice(i, 1)\<close>
  removes the element at \<open>i\<close> and shifts the rest left.
\<close>

fun findIndex :: "('a \<Rightarrow> bool) \<Rightarrow> 'a list \<Rightarrow> nat option" where
  "findIndex P [] = None"
| "findIndex P (x # xs) = (if P x then Some 0 else map_option Suc (findIndex P xs))"

definition splice1 :: "nat \<Rightarrow> 'a list \<Rightarrow> 'a list" where
  "splice1 i xs = take i xs @ drop (Suc i) xs"

section \<open>\<^verbatim>\<open>main.js\<close>: users\<close>

text \<open>
  \<^verbatim>\<open>main.js\<close> keeps two arrays, \<^verbatim>\<open>users\<close> and \<^verbatim>\<open>items\<close>; a handler reads and
  writes the one of its kind only, so it is a function from that collection and
  the request to the response and the collection afterwards.  An entity's
  \<^verbatim>\<open>id\<close> is the field \<open>user_id\<close> or \<open>item_id\<close>: it is only ever written by the
  seed and by \<^verbatim>\<open>length + 1\<close>, an integer.
\<close>

record user =
  user_id :: int
  username :: jsval
  firstName :: jsval
  lastName :: jsval
  email :: jsval
  password :: jsval
  phone :: jsval
  userStatus :: jsval

definition users :: "user list" where
  "users =
     [\<lparr>user_id = 10, username = JStr ''theUser'', firstName = JStr ''John'',
       lastName = JStr ''James'', email = JStr ''john@email.com'',
       password = JStr ''12345'', phone = JStr ''12345'', userStatus = JNum 1\<rparr>]"

text \<open>\<^verbatim>\<open>u => u.id === parseInt(req.params.id, 10)\<close>; NaN equals no id.\<close>

definition user_matches :: "request \<Rightarrow> user \<Rightarrow> bool" where
  "user_matches req u \<longleftrightarrow> parseInt (param req ''id'') = Some (user_id u)"

text \<open>
  \<^verbatim>\<open>!username || !firstName || !lastName || !email || !password || !phone\<close>
\<close>

definition user_fields_missing :: "request \<Rightarrow> bool" where
  "user_fields_missing req \<longleftrightarrow>
     \<not> truthy (field req ''username'') \<or> \<not> truthy (field req ''firstName'') \<or>
     \<not> truthy (field req ''lastName'') \<or> \<not> truthy (field req ''email'') \<or>
     \<not> truthy (field req ''password'') \<or> \<not> truthy (field req ''phone'')"

definition get_users :: "user list \<Rightarrow> request \<Rightarrow> user response \<times> user list" where
  "get_users us req = ((200, Entities us), us)"

definition get_user :: "user list \<Rightarrow> request \<Rightarrow> user response \<times> user list" where
  "get_user us req =
     (case find (user_matches req) us of
        None \<Rightarrow> ((404, Message ''User not found''), us)
      | Some u \<Rightarrow> ((200, Entity u), us))"

definition post_user :: "user list \<Rightarrow> request \<Rightarrow> user response \<times> user list" where
  "post_user us req =
     (if user_fields_missing req then ((400, Message ''All fields are required''), us)
      else
        (let newUser =
           \<lparr>user_id = int (length us) + 1,
            username = field req ''username'',
            firstName = field req ''firstName'',
            lastName = field req ''lastName'',
            email = field req ''email'',
            password = field req ''password'',
            phone = field req ''phone'',
            userStatus = js_or (field req ''userStatus'') (JNum 1)\<rparr>
         in ((201, Entity newUser), us @ [newUser])))"

text \<open>
  \<^verbatim>\<open>users.find\<close> hands the handler the array's own object, so the assignments
  change the array element found, the first match: the reference is its index.
\<close>

definition assign_user :: "request \<Rightarrow> user \<Rightarrow> user" where
  "assign_user req u =
     u\<lparr>username := field req ''username'',
       firstName := field req ''firstName'',
       lastName := field req ''lastName'',
       email := field req ''email'',
       password := field req ''password'',
       phone := field req ''phone'',
       userStatus := js_or (field req ''userStatus'') (JNum 1)\<rparr>"

definition put_user :: "user list \<Rightarrow> request \<Rightarrow> user response \<times> user list" where
  "put_user us req =
     (case findIndex (user_matches req) us of
        None \<Rightarrow> ((404, Message ''User not found''), us)
      | Some i \<Rightarrow>
          (if user_fields_missing req then ((400, Message ''All fields are required''), us)
           else ((200, Entity (assign_user req (us ! i))), us[i := assign_user req (us ! i)])))"

definition delete_user :: "user list \<Rightarrow> request \<Rightarrow> user response \<times> user list" where
  "delete_user us req =
     (case findIndex (user_matches req) us of
        None \<Rightarrow> ((404, Message ''User not found''), us)
      | Some index \<Rightarrow> ((200, Message ''User deleted''), splice1 index us))"

section \<open>\<^verbatim>\<open>main.js\<close>: items\<close>

record item =
  item_id :: int
  name :: jsval
  discription :: jsval

definition items :: "item list" where
  "items =
     [\<lparr>item_id = 1, name = JStr ''Item 1'', discription = JStr ''product info''\<rparr>,
      \<lparr>item_id = 2, name = JStr ''Item 2'', discription = JStr ''product info''\<rparr>]"

definition item_matches :: "request \<Rightarrow> item \<Rightarrow> bool" where
  "item_matches req i \<longleftrightarrow> parseInt (param req ''id'') = Some (item_id i)"

text \<open>\<^verbatim>\<open>!name || !discription\<close>\<close>

definition item_fields_missing :: "request \<Rightarrow> bool" where
  "item_fields_missing req \<longleftrightarrow>
     \<not> truthy (field req ''name'') \<or> \<not> truthy (field req ''discription'')"

definition get_items :: "item list \<Rightarrow> request \<Rightarrow> item response \<times> item list" where
  "get_items its req = ((200, Entities its), its)"

definition get_item :: "item list \<Rightarrow> request \<Rightarrow> item response \<times> item list" where
  "get_item its req =
     (case find (item_matches req) its of
        None \<Rightarrow> ((404, Message ''Item not found''), its)
      | Some i \<Rightarrow> ((200, Entity i), its))"

definition post_item :: "item list \<Rightarrow> request \<Rightarrow> item response \<times> item list" where
  "post_item its req =
     (if item_fields_missing req then ((400, Message ''All fields is required''), its)
      else
        (let newItem =
           \<lparr>item_id = int (length its) + 1,
            name = field req ''name'',
            discription = field req ''discription''\<rparr>
         in ((201, Entity newItem), its @ [newItem])))"

definition assign_item :: "request \<Rightarrow> item \<Rightarrow> item" where
  "assign_item req i =
     i\<lparr>name := field req ''name'', discription := field req ''discription''\<rparr>"

definition put_item :: "item list \<Rightarrow> request \<Rightarrow> item response \<times> item list" where
  "put_item its req =
     (case findIndex (item_matches req) its of
        None \<Rightarrow> ((404, Message ''Item not found''), its)
      | Some k \<Rightarrow>
          (if item_fields_missing req then ((400, Message ''All fields is required''), its)
           else ((200, Entity (assign_item req (its ! k))), its[k := assign_item req (its ! k)])))"

definition delete_item :: "item list \<Rightarrow> request \<Rightarrow> item response \<times> item list" where
  "delete_item its req =
     (case findIndex (item_matches req) its of
        None \<Rightarrow> ((404, Message ''Item not found''), its)
      | Some index \<Rightarrow> ((200, Message ''Item deleted''), splice1 index its))"

section \<open>\<^verbatim>\<open>index.js\<close>: items with a name only\<close>

record item_ix =
  ix_id :: int
  ix_name :: jsval

definition ix_items :: "item_ix list" where
  "ix_items =
     [\<lparr>ix_id = 1, ix_name = JStr ''Item 1''\<rparr>, \<lparr>ix_id = 2, ix_name = JStr ''Item 2''\<rparr>]"

definition ix_matches :: "request \<Rightarrow> item_ix \<Rightarrow> bool" where
  "ix_matches req i \<longleftrightarrow> parseInt (param req ''id'') = Some (ix_id i)"

definition ix_get_items :: "item_ix list \<Rightarrow> request \<Rightarrow> item_ix response \<times> item_ix list" where
  "ix_get_items its req = ((200, Entities its), its)"

definition ix_get_item :: "item_ix list \<Rightarrow> request \<Rightarrow> item_ix response \<times> item_ix list" where
  "ix_get_item its req =
     (case find (ix_matches req) its of
        None \<Rightarrow> ((404, Message ''Item not found''), its)
      | Some i \<Rightarrow> ((200, Entity i), its))"

definition ix_post_item :: "item_ix list \<Rightarrow> request \<Rightarrow> item_ix response \<times> item_ix list" where
  "ix_post_item its req =
     (if \<not> truthy (field req ''name'') then ((400, Message ''Name is required''), its)
      else
        (let newItem = \<lparr>ix_id = int (length its) + 1, ix_name = field req ''name''\<rparr>
         in ((201, Entity newItem), its @ [newItem])))"

definition ix_put_item :: "item_ix list \<Rightarrow> request \<Rightarrow> item_ix response \<times> item_ix list" where
  "ix_put_item its req =
     (case findIndex (ix_matches req) its of
        None \<Rightarrow> ((404, Message ''Item not found''), its)
      | Some k \<Rightarrow>
          (if \<not> truthy (field req ''name'') then ((400, Message ''Name is required''), its)
           else ((200, Entity ((its ! k)\<lparr>ix_name := field req ''name''\<rparr>)),
                 its[k := (its ! k)\<lparr>ix_name := field req ''name''\<rparr>])))"

definition ix_delete_item :: "item_ix list \<Rightarrow> request \<Rightarrow> item_ix response \<times> item_ix list" where
  "ix_delete_item its req =
     (case findIndex (ix_matches req) its of
        None \<Rightarrow> ((404, Message ''Item not found''), its)
      | Some index \<Rightarrow> ((200, Message ''Item deleted''), splice1 index its))"

subsection \<open>The routes of \<^verbatim>\<open>index.js\<close>\<close>

text \<open>
  A route path is a list of segments, a literal or a \<^verbatim>\<open>:name\<close> parameter.  Matching
  a request path binds each parameter to the segment in its place; this is all of
  \<^verbatim>\<open>req.params\<close>, so a path of literals binds nothing, however the framework
  compares the literals.  \<open>None\<close> from the application means that no route of the
  file takes the request.
\<close>

datatype seg = Lit string | Par string

fun match_path :: "seg list \<Rightarrow> string list \<Rightarrow> (string \<times> string) list option" where
  "match_path [] [] = Some []"
| "match_path (Lit l # ps) (s # ss) = (if l = s then match_path ps ss else None)"
| "match_path (Par k # ps) (s # ss) = map_option ((#) (k, s)) (match_path ps ss)"
| "match_path _ _ = None"

datatype verb = GET | POST | PUT | DELETE

definition ix_routes ::
  "(verb \<times> seg list \<times> (item_ix list \<Rightarrow> request \<Rightarrow> item_ix response \<times> item_ix list)) list" where
  "ix_routes =
     [(GET, [Lit ''api'', Lit ''v1'', Lit ''items''], ix_get_items),
      (GET, [Lit ''api'', Lit ''v1'', Lit ''items'', Lit ''get''], ix_get_item),
      (POST, [Lit ''api'', Lit ''v1'', Lit ''items''], ix_post_item),
      (PUT, [Lit ''api'', Lit ''v1'', Lit ''items'', Lit ''put''], ix_put_item),
      (DELETE, [Lit ''api'', Lit ''v1'', Lit ''items'', Par ''id''], ix_delete_item)]"

fun dispatch ::
  "(verb \<times> seg list \<times> ('s \<Rightarrow> request \<Rightarrow> 'r \<times> 's)) list \<Rightarrow>
   verb \<Rightarrow> string list \<Rightarrow> (string \<times> jsval) list \<Rightarrow> 's \<Rightarrow> ('r \<times> 's) option" where
  "dispatch [] m path b s = None"
| "dispatch ((m', pat, h) # rs) m path b s =
     (if m' = m then
        (case match_path pat path of
           Some ps \<Rightarrow> Some (h s \<lparr>params = ps, body = b\<rparr>)
         | None \<Rightarrow> dispatch rs m path b s)
      else dispatch rs m path b s)"

definition index_js ::
  "verb \<Rightarrow> string list \<Rightarrow> (string \<times> jsval) list \<Rightarrow> item_ix list \<Rightarrow>
   (item_ix response \<times> item_ix list) option" where
  "index_js = dispatch ix_routes"

section \<open>Required fields, sample requests and request sequences\<close>

text \<open>
  The \<^verbatim>\<open>required:\<close> lists of the schema comments: \<^verbatim>\<open>User\<close> and \<^verbatim>\<open>Item\<close> of
  \<^verbatim>\<open>main.js\<close>, \<^verbatim>\<open>Item\<close> of \<^verbatim>\<open>index.js\<close>.
\<close>

definition user_required :: "string list" where
  "user_required = [''username'', ''firstName'', ''lastName'', ''email'', ''password'', ''phone'']"

definition item_required :: "string list" where
  "item_required = [''name'', ''discription'']"

definition ix_required :: "string list" where
  "ix_required = [''name'']"

text \<open>
  The word of the interface description for a path segment: a segment is numeric
  when it is a non-empty run of decimal digits.  The handlers do not use it.
\<close>

definition numeric_segment :: "string \<Rightarrow> bool" where
  "numeric_segment s \<longleftrightarrow> s \<noteq> [] \<and> list_all isDigit s"

text \<open>A request for \<^verbatim>\<open>/.../<s>\<close> through a route ending in \<^verbatim>\<open>:id\<close>, with body \<open>b\<close>.\<close>

definition id_req :: "string \<Rightarrow> (string \<times> jsval) list \<Rightarrow> request" where
  "id_req s b = \<lparr>params = [(''id'', s)], body = b\<rparr>"

definition new_user_body :: "(string \<times> jsval) list" where
  "new_user_body =
     [(''username'', JStr ''alice''), (''firstName'', JStr ''Alice''),
      (''lastName'', JStr ''Liddell''), (''email'', JStr ''alice@email.com''),
      (''password'', JStr ''secret''), (''phone'', JStr ''555''), (''userStatus'', JNum 0)]"

definition new_user_req :: request where
  "new_user_req = \<lparr>params = [], body = new_user_body\<rparr>"

definition no_email_body :: "(string \<times> jsval) list" where
  "no_email_body =
     [(''username'', JStr ''alice''), (''firstName'', JStr ''Alice''),
      (''lastName'', JStr ''Liddell''), (''email'', JStr []),
      (''password'', JStr ''secret''), (''phone'', JStr ''555'')]"

definition widget_body :: "(string \<times> jsval) list" where
  "widget_body = [(''name'', JStr ''Widget''), (''discription'', JStr ''x'')]"

text \<open>The user that \<open>new_user_body\<close> creates or leaves behind, under id \<open>n\<close>.\<close>

definition alice :: "int \<Rightarrow> user" where
  "alice n =
     \<lparr>user_id = n, username = JStr ''alice'', firstName = JStr ''Alice'',
      lastName = JStr ''Liddell'', email = JStr ''alice@email.com'',
      password = JStr ''secret'', phone = JStr ''555'', userStatus = JNum 1\<rparr>"

text \<open>A sequence of \<^verbatim>\<open>POST\<close> requests, one after the other, on a collection.\<close>

fun post_users :: "user list \<Rightarrow> request list \<Rightarrow> user list" where
  "post_users us [] = us"
| "post_users us (r # rs) = post_users (snd (post_user us r)) rs"

fun post_items :: "item list \<Rightarrow> request list \<Rightarrow> item list" where
  "post_items its [] = its"
| "post_items its (r # rs) = post_items (snd (post_item its r)) rs"

text \<open>The ids of a collection that was only ever appended to, counting from \<open>1\<close>.\<close>

definition ids_by_position :: "int list \<Rightarrow> bool" where
  "ids_by_position ns \<longleftrightarrow> (\<forall>k<length ns. ns ! k = int k + 1)"

section \<open>Facts about the array operations and the checks\<close>

lemmas parse_defs = parseInt_def toString_def isWhiteSpace_def isDigit_def digitsValue_def
  digitVal_def param_def

lemmas sample_defs = id_req_def new_user_body_def widget_body_def users_def items_def
  ix_items_def field_def user_required_def item_required_def ix_required_def

lemma findIndex_None_iff: "findIndex P xs = None \<longleftrightarrow> (\<forall>x\<in>set xs. \<not> P x)"
  by (induction xs) auto

lemma findIndex_SomeD:
  "findIndex P xs = Some i \<Longrightarrow> i < length xs \<and> P (xs ! i) \<and> (\<forall>j<i. \<not> P (xs ! j))"
proof (induction xs arbitrary: i)
  case Nil
  then show ?case by simp
next
  case (Cons x xs)
  show ?case
  proof (cases "P x")
    case True
    with Cons.prems show ?thesis by simp
  next
    case False
    with Cons.prems obtain k where k: "findIndex P xs = Some k" "i = Suc k"
      by auto
    from Cons.IH [OF k(1)] False k(2) show ?thesis
      by (auto simp: less_Suc_eq_0_disj)
  qed
qed

lemma find_findIndex: "find P xs = map_option ((!) xs) (findIndex P xs)"
  by (induction xs) (auto simp: option.map_comp comp_def)

lemma find_append:
  "find P (xs @ ys) = (case find P xs of None \<Rightarrow> find P ys | Some x \<Rightarrow> Some x)"
  by (induction xs) simp_all

lemma findIndex_update:
  "findIndex P xs = Some i \<Longrightarrow> P y \<Longrightarrow> findIndex P (xs[i := y]) = Some i"
proof (induction xs arbitrary: i)
  case Nil
  then show ?case by simp
next
  case (Cons x xs)
  then show ?case
    by (cases "P x") auto
qed

lemma splice1_other_keys:
  assumes d: "distinct (map f xs)" and i: "i < length xs"
  shows "\<forall>x\<in>set (splice1 i xs). f x \<noteq> f (xs ! i)"
proof -
  have "xs = take i xs @ xs ! i # drop (Suc i) xs"
    using i by (rule id_take_nth_drop)
  then have "distinct (map f (take i xs @ xs ! i # drop (Suc i) xs))"
    using d by simp
  then show ?thesis
    by (auto simp: splice1_def image_iff)
qed

lemma parseInt_undefined: "parseInt None = None"
  by (simp add: parse_defs)

lemma user_fields_missing_iff:
  "user_fields_missing req \<longleftrightarrow> (\<exists>k\<in>set user_required. \<not> truthy (field req k))"
  by (simp add: user_fields_missing_def user_required_def)

lemma item_fields_missing_iff:
  "item_fields_missing req \<longleftrightarrow> (\<exists>k\<in>set item_required. \<not> truthy (field req k))"
  by (simp add: item_fields_missing_def item_required_def)

lemma user_id_assign [simp]: "user_id (assign_user req u) = user_id u"
  by (simp add: assign_user_def)

lemma item_id_assign [simp]: "item_id (assign_item req i) = item_id i"
  by (simp add: assign_item_def)

lemma assign_user_twice [simp]: "assign_user req (assign_user req u) = assign_user req u"
  by (simp add: assign_user_def)

lemma assign_item_twice [simp]: "assign_item req (assign_item req i) = assign_item req i"
  by (simp add: assign_item_def)

lemma user_matches_assign [simp]: "user_matches req (assign_user r u) = user_matches req u"
  by (simp add: user_matches_def)

lemma item_matches_assign [simp]: "item_matches req (assign_item r i) = item_matches req i"
  by (simp add: item_matches_def)

subsection \<open>Update\<close>

lemma put_user_found:
  assumes "findIndex (user_matches req) us = Some i" and "\<not> user_fields_missing req"
  shows "put_user us req =
    ((200, Entity (assign_user req (us ! i))), us[i := assign_user req (us ! i)])"
  using assms by (simp add: put_user_def)

lemma put_item_found:
  assumes "findIndex (item_matches req) its = Some i" and "\<not> item_fields_missing req"
  shows "put_item its req =
    ((200, Entity (assign_item req (its ! i))), its[i := assign_item req (its ! i)])"
  using assms by (simp add: put_item_def)

lemma put_user_twice:
  assumes ex: "\<exists>u\<in>set us. user_matches req u" and ok: "\<not> user_fields_missing req"
  shows "fst (fst (put_user us req)) = 200 \<and>
         put_user (snd (put_user us req)) req = put_user us req"
proof -
  from ex obtain i where i: "findIndex (user_matches req) us = Some i"
    using findIndex_None_iff [of "user_matches req" us] by auto
  let ?a = "assign_user req (us ! i)"
  have p: "put_user us req = ((200, Entity ?a), us[i := ?a])"
    by (rule put_user_found [OF i ok])
  from findIndex_SomeD [OF i] have lt: "i < length us" and m: "user_matches req (us ! i)"
    by auto
  have i': "findIndex (user_matches req) (us[i := ?a]) = Some i"
    by (rule findIndex_update [OF i]) (simp add: m)
  have "put_user (us[i := ?a]) req = ((200, Entity ?a), us[i := ?a])"
    using put_user_found [OF i' ok] lt by simp
  with p show ?thesis by simp
qed

lemma put_item_twice:
  assumes ex: "\<exists>u\<in>set its. item_matches req u" and ok: "\<not> item_fields_missing req"
  shows "fst (fst (put_item its req)) = 200 \<and>
         put_item (snd (put_item its req)) req = put_item its req"
proof -
  from ex obtain i where i: "findIndex (item_matches req) its = Some i"
    using findIndex_None_iff [of "item_matches req" its] by auto
  let ?a = "assign_item req (its ! i)"
  have p: "put_item its req = ((200, Entity ?a), its[i := ?a])"
    by (rule put_item_found [OF i ok])
  from findIndex_SomeD [OF i] have lt: "i < length its" and m: "item_matches req (its ! i)"
    by auto
  have i': "findIndex (item_matches req) (its[i := ?a]) = Some i"
    by (rule findIndex_update [OF i]) (simp add: m)
  have "put_item (its[i := ?a]) req = ((200, Entity ?a), its[i := ?a])"
    using put_item_found [OF i' ok] lt by simp
  with p show ?thesis by simp
qed

subsection \<open>Create and delete on collections whose ids are distinct\<close>

text \<open>
  The items of \<^verbatim>\<open>main.js\<close> start with the ids \<open>1, 2\<close>, their positions, and a
  create keeps it so: any number of creates leaves the item ids distinct.
\<close>

lemma ids_by_position_distinct: "ids_by_position ns \<Longrightarrow> distinct ns"
  by (auto simp: ids_by_position_def distinct_conv_nth)

lemma post_item_ids_by_position:
  assumes "ids_by_position (map item_id its)"
  shows "ids_by_position (map item_id (snd (post_item its r)))"
proof (cases "item_fields_missing r")
  case True
  then show ?thesis using assms by (simp add: post_item_def)
next
  case False
  then show ?thesis using assms
    by (auto simp: post_item_def Let_def ids_by_position_def nth_append less_Suc_eq)
qed

lemma post_items_ids_by_position:
  "ids_by_position (map item_id its) \<Longrightarrow> ids_by_position (map item_id (post_items its rs))"
  by (induction rs arbitrary: its) (simp_all add: post_item_ids_by_position)

lemma items_creates_distinct: "distinct (map item_id (post_items items rs))"
proof -
  have "ids_by_position (map item_id items)"
    by (simp add: ids_by_position_def items_def less_Suc_eq eval_nat_numeral)
  then show ?thesis
    by (intro ids_by_position_distinct post_items_ids_by_position)
qed

text \<open>
  A create followed by a get of the new id returns the created entity when no
  entity of the collection had that id before.
\<close>

lemma post_user_then_get:
  assumes ok: "\<not> user_fields_missing req"
    and fresh: "\<forall>u\<in>set us. user_id u \<noteq> int (length us) + 1"
    and g: "parseInt (param g ''id'') = Some (int (length us) + 1)"
  shows "fst (get_user (snd (post_user us req)) g) = (200, snd (fst (post_user us req)))"
proof -
  from fresh g have "findIndex (user_matches g) us = None"
    by (auto simp: findIndex_None_iff user_matches_def)
  then have "find (user_matches g) us = None"
    by (simp add: find_findIndex)
  with ok g show ?thesis
    by (simp add: post_user_def get_user_def Let_def find_append user_matches_def)
qed

lemma post_item_then_get:
  assumes ok: "\<not> item_fields_missing req"
    and fresh: "\<forall>u\<in>set its. item_id u \<noteq> int (length its) + 1"
    and g: "parseInt (param g ''id'') = Some (int (length its) + 1)"
  shows "fst (get_item (snd (post_item its req)) g) = (200, snd (fst (post_item its req)))"
proof -
  from fresh g have "findIndex (item_matches g) its = None"
    by (auto simp: findIndex_None_iff item_matches_def)
  then have "find (item_matches g) its = None"
    by (simp add: find_findIndex)
  with ok g show ?thesis
    by (simp add: post_item_def get_item_def Let_def find_append item_matches_def)
qed

text \<open>
  A delete of a present id removes one element, the first match, and keeps the
  others in their order; with distinct ids the id is then gone.
\<close>

lemma delete_user_removes_one:
  assumes "\<exists>u\<in>set us. user_matches req u"
  shows "\<exists>i<length us. delete_user us req =
           ((200, Message ''User deleted''), take i us @ drop (Suc i) us) \<and>
         length (snd (delete_user us req)) + 1 = length us"
proof -
  from assms obtain i where i: "findIndex (user_matches req) us = Some i"
    using findIndex_None_iff [of "user_matches req" us] by auto
  from findIndex_SomeD [OF i] have "i < length us" by simp
  with i show ?thesis
    by (auto simp: delete_user_def splice1_def)
qed

lemma delete_item_removes_one:
  assumes "\<exists>u\<in>set its. item_matches req u"
  shows "\<exists>i<length its. delete_item its req =
           ((200, Message ''Item deleted''), take i its @ drop (Suc i) its) \<and>
         length (snd (delete_item its req)) + 1 = length its"
proof -
  from assms obtain i where i: "findIndex (item_matches req) its = Some i"
    using findIndex_None_iff [of "item_matches req" its] by auto
  from findIndex_SomeD [OF i] have "i < length its" by simp
  with i show ?thesis
    by (auto simp: delete_item_def splice1_def)
qed

lemma delete_user_then_get:
  assumes d: "distinct (map user_id us)" and ex: "\<exists>u\<in>set us. user_matches req u"
  shows "fst (get_user (snd (delete_user us req)) req) = (404, Message ''User not found'')"
proof -
  from ex obtain i where i: "findIndex (user_matches req) us = Some i"
    using findIndex_None_iff [of "user_matches req" us] by auto
  from findIndex_SomeD [OF i] have lt: "i < length us" and m: "user_matches req (us ! i)"
    by auto
  from splice1_other_keys [OF d lt] m
  have "\<forall>u\<in>set (splice1 i us). \<not> user_matches req u"
    by (auto simp: user_matches_def)
  then have "findIndex (user_matches req) (splice1 i us) = None"
    by (simp add: findIndex_None_iff)
  then show ?thesis
    by (simp add: delete_user_def get_user_def find_findIndex i)
qed

lemma delete_item_then_get:
  assumes d: "distinct (map item_id its)" and ex: "\<exists>u\<in>set its. item_matches req u"
  shows "fst (get_item (snd (delete_item its req)) req) = (404, Message ''Item not found'')"
proof -
  from ex obtain i where i: "findIndex (item_matches req) its = Some i"
    using findIndex_None_iff [of "item_matches req" its] by auto
  from findIndex_SomeD [OF i] have lt: "i < length its" and m: "item_matches req (its ! i)"
    by auto
  from splice1_other_keys [OF d lt] m
  have "\<forall>u\<in>set (splice1 i its). \<not> item_matches req u"
    by (auto simp: item_matches_def)
  then have "findIndex (item_matches req) (splice1 i its) = None"
    by (simp add: findIndex_None_iff)
  then show ?thesis
    by (simp add: delete_item_def get_item_def find_findIndex i)
qed

subsection \<open>Routes without a parameter\<close>

lemma match_path_literal:
  "match_path (map Lit ls) path = Some ps \<Longrightarrow> ps = []"
proof (induction ls arbitrary: path)
  case Nil
  then show ?case by (cases path) simp_all
next
  case (Cons l ls)
  then show ?case by (cases path) (simp_all split: if_splits)
qed

lemma ix_get_item_no_id:
  assumes "param req ''id'' = None"
  shows "ix_get_item xs req = ((404, Message ''Item not found''), xs)"
proof -
  have "findIndex (ix_matches req) xs = None"
    by (simp add: findIndex_None_iff ix_matches_def assms parseInt_undefined)
  then show ?thesis by (simp add: ix_get_item_def find_findIndex)
qed

lemma ix_put_item_no_id:
  assumes "param req ''id'' = None"
  shows "ix_put_item xs req = ((404, Message ''Item not found''), xs)"
proof -
  have "findIndex (ix_matches req) xs = None"
    by (simp add: findIndex_None_iff ix_matches_def assms parseInt_undefined)
  then show ?thesis by (simp add: ix_put_item_def)
qed

subsection \<open>Reading the id segment\<close>

text \<open>
  What \<^verbatim>\<open>parseInt\<close> makes of a segment, by the shape of the segment, and how the
  handlers depend on it: through the value read only.
\<close>

lemma isDigit_not_space_sign:
  "isDigit c \<Longrightarrow> \<not> isWhiteSpace c \<and> c \<noteq> CHR ''+'' \<and> c \<noteq> CHR ''-''"
  by (auto simp: isDigit_def isWhiteSpace_def)

lemma sign_not_space: "\<not> isWhiteSpace CHR ''+''" "\<not> isWhiteSpace CHR ''-''"
  by (simp_all add: isWhiteSpace_def)

lemma takeWhile_digits:
  assumes "list_all isDigit ds" and "rest = [] \<or> \<not> isDigit (hd rest)"
  shows "takeWhile isDigit (ds @ rest) = ds"
proof -
  from assms(2) have "takeWhile isDigit rest = []"
    by (simp add: takeWhile_eq_Nil_iff)
  with assms(1) show ?thesis
    by (simp add: list_all_iff)
qed

lemma parseInt_after_space:
  assumes "list_all isWhiteSpace ws" and "s \<noteq> []" and "\<not> isWhiteSpace (hd s)"
  shows "parseInt (Some (ws @ s)) =
    (case signed_digits s of (sign, r) \<Rightarrow>
       if takeWhile isDigit r = [] then None
       else Some (sign * digitsValue (takeWhile isDigit r)))"
proof -
  from assms(2,3) have "dropWhile isWhiteSpace s = s"
    by (cases s) simp_all
  with assms(1) have "dropWhile isWhiteSpace (ws @ s) = s"
    by (simp add: list_all_iff)
  then show ?thesis
    by (simp add: parseInt_def toString_def)
qed

lemma parseInt_digit_prefix:
  assumes ws: "list_all isWhiteSpace ws" and ne: "ds \<noteq> []" and ds: "list_all isDigit ds"
    and rest: "rest = [] \<or> \<not> isDigit (hd rest)"
  shows "parseInt (Some (ws @ ds @ rest)) = Some (digitsValue ds)"
    and "parseInt (Some (ws @ ''+'' @ ds @ rest)) = Some (digitsValue ds)"
    and "parseInt (Some (ws @ ''-'' @ ds @ rest)) = Some (- digitsValue ds)"
proof -
  from ne obtain d ds' where d: "ds = d # ds'" by (cases ds) auto
  with ds have dd: "isDigit d" by simp
  note t = takeWhile_digits [OF ds rest]
  have s: "signed_digits (ds @ rest) = (1, ds @ rest)"
    using isDigit_not_space_sign [OF dd] by (simp add: d)
  show "parseInt (Some (ws @ ds @ rest)) = Some (digitsValue ds)"
    using isDigit_not_space_sign [OF dd] ne
    by (subst parseInt_after_space [OF ws]) (simp_all add: s t, simp add: d)
  show "parseInt (Some (ws @ ''+'' @ ds @ rest)) = Some (digitsValue ds)"
    using ne by (subst parseInt_after_space [OF ws]) (simp_all add: sign_not_space t)
  show "parseInt (Some (ws @ ''-'' @ ds @ rest)) = Some (- digitsValue ds)"
    using ne by (subst parseInt_after_space [OF ws]) (simp_all add: sign_not_space t)
qed

lemma parseInt_no_digit:
  assumes ws: "list_all isWhiteSpace ws" and t: "t = [] \<or> \<not> isDigit (hd t)"
  shows "parseInt (Some (ws @ ''+'' @ t)) = None"
    and "parseInt (Some (ws @ ''-'' @ t)) = None"
    and "t = [] \<or> \<not> isWhiteSpace (hd t) \<and> hd t \<noteq> CHR ''+'' \<and> hd t \<noteq> CHR ''-'' \<Longrightarrow>
         parseInt (Some (ws @ t)) = None"
proof -
  from t have n: "takeWhile isDigit t = []" by (simp add: takeWhile_eq_Nil_iff)
  show "parseInt (Some (ws @ ''+'' @ t)) = None"
    by (subst parseInt_after_space [OF ws]) (simp_all add: sign_not_space n)
  show "parseInt (Some (ws @ ''-'' @ t)) = None"
    by (subst parseInt_after_space [OF ws]) (simp_all add: sign_not_space n)
  assume a: "t = [] \<or> \<not> isWhiteSpace (hd t) \<and> hd t \<noteq> CHR ''+'' \<and> hd t \<noteq> CHR ''-''"
  show "parseInt (Some (ws @ t)) = None"
  proof (cases t)
    case Nil
    from ws have e: "dropWhile isWhiteSpace ws = []"
      by (simp add: list_all_iff)
    show ?thesis
      by (simp add: parseInt_def toString_def Nil e)
  next
    case (Cons c r)
    with a n have "signed_digits t = (1, t)" by simp
    with a n Cons show ?thesis
      by (subst parseInt_after_space [OF ws]) simp_all
  qed
qed

lemma field_body: "body r = body r' \<Longrightarrow> field r k = field r' k"
  by (simp add: field_def)

lemma same_parse_same_handling:
  assumes p: "parseInt (param r ''id'') = parseInt (param r' ''id'')" and b: "body r = body r'"
  shows "get_user us r = get_user us r'" "put_user us r = put_user us r'"
    "delete_user us r = delete_user us r'"
    "get_item its r = get_item its r'" "put_item its r = put_item its r'"
    "delete_item its r = delete_item its r'"
    "ix_delete_item xs r = ix_delete_item xs r'"
proof -
  have m: "user_matches r = user_matches r'" "item_matches r = item_matches r'"
    "ix_matches r = ix_matches r'"
    by (simp_all add: fun_eq_iff user_matches_def item_matches_def ix_matches_def p)
  have f: "user_fields_missing r = user_fields_missing r'"
    "item_fields_missing r = item_fields_missing r'"
    "assign_user r = assign_user r'" "assign_item r = assign_item r'"
    by (simp_all add: fun_eq_iff user_fields_missing_def item_fields_missing_def
        assign_user_def assign_item_def field_body [OF b])
  show "get_user us r = get_user us r'" "put_user us r = put_user us r'"
    "delete_user us r = delete_user us r'"
    "get_item its r = get_item its r'" "put_item its r = put_item its r'"
    "delete_item its r = delete_item its r'"
    "ix_delete_item xs r = ix_delete_item xs r'"
    by (simp_all add: get_user_def put_user_def delete_user_def get_item_def put_item_def
        delete_item_def ix_delete_item_def m f cong: option.case_cong if_cong)
qed

lemma unheld_id_404:
  shows "\<forall>u\<in>set us. parseInt (param req ''id'') \<noteq> Some (user_id u) \<Longrightarrow>
         get_user us req = ((404, Message ''User not found''), us) \<and>
         put_user us req = ((404, Message ''User not found''), us) \<and>
         delete_user us req = ((404, Message ''User not found''), us)"
    and "\<forall>i\<in>set its. parseInt (param req ''id'') \<noteq> Some (item_id i) \<Longrightarrow>
         get_item its req = ((404, Message ''Item not found''), its) \<and>
         put_item its req = ((404, Message ''Item not found''), its) \<and>
         delete_item its req = ((404, Message ''Item not found''), its)"
    and "\<forall>i\<in>set xs. parseInt (param req ''id'') \<noteq> Some (ix_id i) \<Longrightarrow>
         ix_delete_item xs req = ((404, Message ''Item not found''), xs)"
proof -
  assume "\<forall>u\<in>set us. parseInt (param req ''id'') \<noteq> Some (user_id u)"
  then have "findIndex (user_matches req) us = None"
    by (simp add: findIndex_None_iff user_matches_def)
  then show "get_user us req = ((404, Message ''User not found''), us) \<and>
         put_user us req = ((404, Message ''User not found''), us) \<and>
         delete_user us req = ((404, Message ''User not found''), us)"
    by (simp add: get_user_def put_user_def delete_user_def find_findIndex)
next
  assume "\<forall>i\<in>set its. parseInt (param req ''id'') \<noteq> Some (item_id i)"
  then have "findIndex (item_matches req) its = None"
    by (simp add: findIndex_None_iff item_matches_def)
  then show "get_item its req = ((404, Message ''Item not found''), its) \<and>
         put_item its req = ((404, Message ''Item not found''), its) \<and>
         delete_item its req = ((404, Message ''Item not found''), its)"
    by (simp add: get_item_def put_item_def delete_item_def find_findIndex)
next
  assume "\<forall>i\<in>set xs. parseInt (param req ''id'') \<noteq> Some (ix_id i)"
  then have "findIndex (ix_matches req) xs = None"
    by (simp add: findIndex_None_iff ix_matches_def)
  then show "ix_delete_item xs req = ((404, Message ''Item not found''), xs)"
    by (simp add: ix_delete_item_def)
qed

lemma held_id_found:
  "parseInt (param g ''id'') = Some n \<Longrightarrow> find (\<lambda>u. user_id u = n) us = Some u \<Longrightarrow>
     get_user us g = ((200, Entity u), us)"
  "parseInt (param g ''id'') = Some n \<Longrightarrow> find (\<lambda>i. item_id i = n) its = Some i \<Longrightarrow>
     get_item its g = ((200, Entity i), its)"
proof -
  assume p: "parseInt (param g ''id'') = Some n"
  have "user_matches g = (\<lambda>u. user_id u = n)"
    by (auto simp: fun_eq_iff user_matches_def p)
  then show "find (\<lambda>u. user_id u = n) us = Some u \<Longrightarrow> get_user us g = ((200, Entity u), us)"
    by (simp add: get_user_def)
  have "item_matches g = (\<lambda>i. item_id i = n)"
    by (auto simp: fun_eq_iff item_matches_def p)
  then show "find (\<lambda>i. item_id i = n) its = Some i \<Longrightarrow> get_item its g = ((200, Entity i), its)"
    by (simp add: get_item_def)
qed

section \<open>The claims\<close>

subsection \<open>C1: ids after creates\<close>

text \<open>
  Claim C1 says that after any sequence of creates on the seeded collection, with
  no deletion, the ids are pairwise distinct.  The users of \<^verbatim>\<open>main.js\<close> start
  as one user with id \<open>10\<close>, and a create assigns \<^verbatim>\<open>users.length + 1\<close>: nine
  creates assign \<open>2, ..., 10\<close>, and the ninth id is the seed user's.  (For the
  items, \<open>items_creates_distinct\<close> shows that the ids stay distinct.)
\<close>

theorem users_create_id_collision:
  "map user_id (post_users users (replicate 9 new_user_req)) = [10, 2, 3, 4, 5, 6, 7, 8, 9, 10] \<and>
   \<not> distinct (map user_id (post_users users (replicate 9 new_user_req)))"
  by (simp add: post_user_def user_fields_missing_def Let_def new_user_req_def sample_defs
      eval_nat_numeral)

subsection \<open>C2: create, then get\<close>

text \<open>
  Claim C2 says that a get of the id a create returned gives the created entity.
  After eight creates the ninth create returns a user with id \<open>10\<close>, and the get
  of \<open>10\<close> answers 200 with the seed user, the first with that id, not the one
  created.  (\<open>post_user_then_get\<close> and \<open>post_item_then_get\<close> show the round trip
  whenever the new id was not in the collection.)
\<close>

theorem users_create_then_get_other:
  "fst (post_user (post_users users (replicate 8 new_user_req)) new_user_req) =
     (201, Entity (alice 10)) \<and>
   fst (get_user (snd (post_user (post_users users (replicate 8 new_user_req)) new_user_req))
     (id_req ''10'' [])) = (200, Entity (users ! 0)) \<and>
   users ! 0 \<noteq> alice 10"
  by (simp add: post_user_def get_user_def user_matches_def user_fields_missing_def Let_def
      js_or_def alice_def new_user_req_def parse_defs sample_defs eval_nat_numeral)

subsection \<open>C3: update twice\<close>

text \<open>
  Claim C3: for an id that exists and a payload with every required field truthy,
  a \<^verbatim>\<open>PUT\<close> answers 200, and the same \<^verbatim>\<open>PUT\<close> again gives the same response
  and leaves the same collection as the first did, for users and for items.
\<close>

theorem put_twice_same:
  "((\<exists>u\<in>set us. user_matches req u) \<and> (\<forall>k\<in>set user_required. truthy (field req k)) \<longrightarrow>
      fst (fst (put_user us req)) = 200 \<and>
      put_user (snd (put_user us req)) req = put_user us req) \<and>
   ((\<exists>i\<in>set its. item_matches rq i) \<and> (\<forall>k\<in>set item_required. truthy (field rq k)) \<longrightarrow>
      fst (fst (put_item its rq)) = 200 \<and>
      put_item (snd (put_item its rq)) rq = put_item its rq)"
  using put_user_twice [of us req] put_item_twice [of its rq]
  by (simp only: user_fields_missing_iff item_fields_missing_iff) blast

text \<open>C3 at \<^verbatim>\<open>PUT /api/v1/users/10\<close> and \<^verbatim>\<open>PUT /api/v1/items/2\<close> on the seeds.\<close>

theorem put_twice_same_witness:
  "(\<exists>u\<in>set users. user_matches (id_req ''10'' new_user_body) u) \<and>
   list_all (\<lambda>k. truthy (field (id_req ''10'' new_user_body) k)) user_required \<and>
   fst (fst (put_user users (id_req ''10'' new_user_body))) = 200 \<and>
   put_user (snd (put_user users (id_req ''10'' new_user_body))) (id_req ''10'' new_user_body)
     = put_user users (id_req ''10'' new_user_body) \<and>
   (\<exists>i\<in>set items. item_matches (id_req ''2'' widget_body) i) \<and>
   list_all (\<lambda>k. truthy (field (id_req ''2'' widget_body) k)) item_required \<and>
   fst (fst (put_item items (id_req ''2'' widget_body))) = 200 \<and>
   put_item (snd (put_item items (id_req ''2'' widget_body))) (id_req ''2'' widget_body)
     = put_item items (id_req ''2'' widget_body)"
proof -
  have h1: "\<exists>u\<in>set users. user_matches (id_req ''10'' new_user_body) u"
    by (simp add: user_matches_def parse_defs sample_defs)
  have h2: "list_all (\<lambda>k. truthy (field (id_req ''10'' new_user_body) k)) user_required"
    by (simp add: sample_defs)
  have h3: "\<exists>i\<in>set items. item_matches (id_req ''2'' widget_body) i"
    by (simp add: item_matches_def parse_defs sample_defs)
  have h4: "list_all (\<lambda>k. truthy (field (id_req ''2'' widget_body) k)) item_required"
    by (simp add: sample_defs)
  have h2': "\<forall>k\<in>set user_required. truthy (field (id_req ''10'' new_user_body) k)"
    using h2 by (simp only: list_all_iff)
  have h4': "\<forall>k\<in>set item_required. truthy (field (id_req ''2'' widget_body) k)"
    using h4 by (simp only: list_all_iff)
  from put_twice_same [of users "id_req ''10'' new_user_body" items "id_req ''2'' widget_body"]
    h1 h2' h3 h4' h2 h4
  show ?thesis by blast
qed

subsection \<open>C4: delete, then get\<close>

text \<open>
  Claim C4 says that after the delete of a present id the collection is one
  shorter, the others keep their order, and a get of that id answers 404.  After
  nine creates two users have id \<open>10\<close>; the delete of \<open>10\<close> removes the first of
  them, the seed user, and the get of \<open>10\<close> then answers 200 with the other.
  (\<open>delete_user_removes_one\<close> and \<open>delete_item_removes_one\<close> show the length and
  the order for every collection, \<open>delete_user_then_get\<close> and
  \<open>delete_item_then_get\<close> the 404 when the ids are distinct.)
\<close>

theorem users_delete_then_get_found:
  "delete_user (post_users users (replicate 9 new_user_req)) (id_req ''10'' []) =
     ((200, Message ''User deleted''), tl (post_users users (replicate 9 new_user_req))) \<and>
   get_user (tl (post_users users (replicate 9 new_user_req))) (id_req ''10'' []) =
     ((200, Entity (alice 10)), tl (post_users users (replicate 9 new_user_req)))"
  by (simp add: post_user_def get_user_def delete_user_def splice1_def user_matches_def
      user_fields_missing_def Let_def
      js_or_def alice_def new_user_req_def parse_defs sample_defs eval_nat_numeral)

subsection \<open>C5: a required field is missing\<close>

text \<open>
  Claim C5: when some required field of the body is absent or falsy, a \<^verbatim>\<open>POST\<close>,
  and a \<^verbatim>\<open>PUT\<close> whose id exists, answers 400 with a message and returns the
  collection as it was: users and items of \<^verbatim>\<open>main.js\<close>, and the \<^verbatim>\<open>POST\<close> of
  \<^verbatim>\<open>index.js\<close>.
\<close>

theorem missing_field_400:
  "((\<exists>k\<in>set user_required. \<not> truthy (field req k)) \<longrightarrow>
      post_user us req = ((400, Message ''All fields are required''), us) \<and>
      ((\<exists>u\<in>set us. user_matches req u) \<longrightarrow>
         put_user us req = ((400, Message ''All fields are required''), us))) \<and>
   ((\<exists>k\<in>set item_required. \<not> truthy (field rq k)) \<longrightarrow>
      post_item its rq = ((400, Message ''All fields is required''), its) \<and>
      ((\<exists>i\<in>set its. item_matches rq i) \<longrightarrow>
         put_item its rq = ((400, Message ''All fields is required''), its))) \<and>
   ((\<exists>k\<in>set ix_required. \<not> truthy (field rx k)) \<longrightarrow>
      ix_post_item xs rx = ((400, Message ''Name is required''), xs))"
proof (intro conjI impI)
  assume "\<exists>k\<in>set user_required. \<not> truthy (field req k)"
  then have m: "user_fields_missing req" by (simp only: user_fields_missing_iff)
  then show "post_user us req = ((400, Message ''All fields are required''), us)"
    by (simp add: post_user_def)
  assume "\<exists>u\<in>set us. user_matches req u"
  then obtain i where "findIndex (user_matches req) us = Some i"
    using findIndex_None_iff [of "user_matches req" us] by auto
  with m show "put_user us req = ((400, Message ''All fields are required''), us)"
    by (simp add: put_user_def)
next
  assume "\<exists>k\<in>set item_required. \<not> truthy (field rq k)"
  then have m: "item_fields_missing rq" by (simp only: item_fields_missing_iff)
  then show "post_item its rq = ((400, Message ''All fields is required''), its)"
    by (simp add: post_item_def)
  assume "\<exists>i\<in>set its. item_matches rq i"
  then obtain i where "findIndex (item_matches rq) its = Some i"
    using findIndex_None_iff [of "item_matches rq" its] by auto
  with m show "put_item its rq = ((400, Message ''All fields is required''), its)"
    by (simp add: put_item_def)
next
  assume "\<exists>k\<in>set ix_required. \<not> truthy (field rx k)"
  then show "ix_post_item xs rx = ((400, Message ''Name is required''), xs)"
    by (simp add: ix_post_item_def ix_required_def)
qed

text \<open>
  C5 on the seeds: a user body whose email is the empty string, an item body with
  no \<^verbatim>\<open>discription\<close>, and an \<^verbatim>\<open>index.js\<close> body whose name is null.
\<close>

theorem missing_field_400_witness:
  "(\<exists>k\<in>set user_required. \<not> truthy (field (id_req ''10'' no_email_body) k)) \<and>
   (\<exists>u\<in>set users. user_matches (id_req ''10'' no_email_body) u) \<and>
   post_user users (id_req ''10'' no_email_body) =
     ((400, Message ''All fields are required''), users) \<and>
   put_user users (id_req ''10'' no_email_body) =
     ((400, Message ''All fields are required''), users) \<and>
   (\<exists>k\<in>set item_required. \<not> truthy (field (id_req ''1'' [(''name'', JStr ''Widget'')]) k)) \<and>
   (\<exists>i\<in>set items. item_matches (id_req ''1'' [(''name'', JStr ''Widget'')]) i) \<and>
   post_item items (id_req ''1'' [(''name'', JStr ''Widget'')]) =
     ((400, Message ''All fields is required''), items) \<and>
   put_item items (id_req ''1'' [(''name'', JStr ''Widget'')]) =
     ((400, Message ''All fields is required''), items) \<and>
   (\<exists>k\<in>set ix_required. \<not> truthy (field (id_req ''1'' [(''name'', JNull)]) k)) \<and>
   ix_post_item ix_items (id_req ''1'' [(''name'', JNull)]) =
     ((400, Message ''Name is required''), ix_items)"
proof -
  have h1: "\<exists>k\<in>set user_required. \<not> truthy (field (id_req ''10'' no_email_body) k)"
    by (simp add: sample_defs no_email_body_def)
  have h2: "\<exists>u\<in>set users. user_matches (id_req ''10'' no_email_body) u"
    by (simp add: user_matches_def parse_defs sample_defs)
  have h3: "\<exists>k\<in>set item_required. \<not> truthy (field (id_req ''1'' [(''name'', JStr ''Widget'')]) k)"
    by (simp add: sample_defs)
  have h4: "\<exists>i\<in>set items. item_matches (id_req ''1'' [(''name'', JStr ''Widget'')]) i"
    by (simp add: item_matches_def parse_defs sample_defs)
  have h5: "\<exists>k\<in>set ix_required. \<not> truthy (field (id_req ''1'' [(''name'', JNull)]) k)"
    by (simp add: sample_defs)
  from missing_field_400 [of "id_req ''10'' no_email_body" users
      "id_req ''1'' [(''name'', JStr ''Widget'')]" items "id_req ''1'' [(''name'', JNull)]" ix_items]
    h1 h2 h3 h4 h5
  show ?thesis by blast
qed

subsection \<open>C6: what a create does\<close>

text \<open>
  Claim C6: a create whose required fields are all truthy, on a collection of
  \<open>n\<close> entities, answers 201 with the new entity and appends it at the end; the
  new entity has id \<open>n + 1\<close> and the fields of the request (for a user, with the
  status that \<^verbatim>\<open>userStatus || 1\<close> gives): users and items of \<^verbatim>\<open>main.js\<close>, items of
  \<^verbatim>\<open>index.js\<close>.  On the two seed items the body
  \<^verbatim>\<open>{name: "Widget", discription: "x"}\<close> gives
  \<^verbatim>\<open>{id: 3, name: "Widget", discription: "x"}\<close>.
\<close>

theorem create_appends_next_id:
  "((\<forall>k\<in>set user_required. truthy (field req k)) \<longrightarrow>
      (\<exists>e. post_user us req = ((201, Entity e), us @ [e]) \<and>
           e = \<lparr>user_id = int (length us) + 1,
                username = field req ''username'', firstName = field req ''firstName'',
                lastName = field req ''lastName'', email = field req ''email'',
                password = field req ''password'', phone = field req ''phone'',
                userStatus = (if truthy (field req ''userStatus'')
                              then field req ''userStatus'' else JNum 1)\<rparr>)) \<and>
   ((\<forall>k\<in>set item_required. truthy (field rq k)) \<longrightarrow>
      (\<exists>e. post_item its rq = ((201, Entity e), its @ [e]) \<and>
           e = \<lparr>item_id = int (length its) + 1,
                name = field rq ''name'', discription = field rq ''discription''\<rparr>)) \<and>
   ((\<forall>k\<in>set ix_required. truthy (field rx k)) \<longrightarrow>
      (\<exists>e. ix_post_item xs rx = ((201, Entity e), xs @ [e]) \<and>
           e = \<lparr>ix_id = int (length xs) + 1, ix_name = field rx ''name''\<rparr>)) \<and>
   post_item items \<lparr>params = [], body = widget_body\<rparr> =
     ((201, Entity \<lparr>item_id = 3, name = JStr ''Widget'', discription = JStr ''x''\<rparr>),
      items @ [\<lparr>item_id = 3, name = JStr ''Widget'', discription = JStr ''x''\<rparr>])"
proof (intro conjI impI)
  assume "\<forall>k\<in>set user_required. truthy (field req k)"
  then have "\<not> user_fields_missing req" by (simp only: user_fields_missing_iff) blast
  then show "\<exists>e. post_user us req = ((201, Entity e), us @ [e]) \<and>
           e = \<lparr>user_id = int (length us) + 1,
                username = field req ''username'', firstName = field req ''firstName'',
                lastName = field req ''lastName'', email = field req ''email'',
                password = field req ''password'', phone = field req ''phone'',
                userStatus = (if truthy (field req ''userStatus'')
                              then field req ''userStatus'' else JNum 1)\<rparr>"
    by (simp add: post_user_def Let_def js_or_def)
next
  assume "\<forall>k\<in>set item_required. truthy (field rq k)"
  then have "\<not> item_fields_missing rq" by (simp only: item_fields_missing_iff) blast
  then show "\<exists>e. post_item its rq = ((201, Entity e), its @ [e]) \<and>
           e = \<lparr>item_id = int (length its) + 1,
                name = field rq ''name'', discription = field rq ''discription''\<rparr>"
    by (simp add: post_item_def Let_def)
next
  assume "\<forall>k\<in>set ix_required. truthy (field rx k)"
  then show "\<exists>e. ix_post_item xs rx = ((201, Entity e), xs @ [e]) \<and>
           e = \<lparr>ix_id = int (length xs) + 1, ix_name = field rx ''name''\<rparr>"
    by (simp add: ix_post_item_def ix_required_def Let_def)
next
  show "post_item items \<lparr>params = [], body = widget_body\<rparr> =
     ((201, Entity \<lparr>item_id = 3, name = JStr ''Widget'', discription = JStr ''x''\<rparr>),
      items @ [\<lparr>item_id = 3, name = JStr ''Widget'', discription = JStr ''x''\<rparr>])"
    by (simp add: post_item_def item_fields_missing_def sample_defs Let_def)
qed

text \<open>
  C6 on the three seeds: the new user is created under id \<open>2\<close>, the new items
  under id \<open>3\<close>, each with the fields of its body.
\<close>

theorem create_appends_next_id_witness:
  "list_all (\<lambda>k. truthy (field new_user_req k)) user_required \<and>
   post_user users new_user_req = ((201, Entity (alice 2)), users @ [alice 2]) \<and>
   list_all (\<lambda>k. truthy (field \<lparr>params = [], body = widget_body\<rparr> k)) item_required \<and>
   post_item items \<lparr>params = [], body = widget_body\<rparr> =
     ((201, Entity \<lparr>item_id = 3, name = JStr ''Widget'', discription = JStr ''x''\<rparr>),
      items @ [\<lparr>item_id = 3, name = JStr ''Widget'', discription = JStr ''x''\<rparr>]) \<and>
   list_all (\<lambda>k. truthy (field \<lparr>params = [], body = widget_body\<rparr> k)) ix_required \<and>
   ix_post_item ix_items \<lparr>params = [], body = widget_body\<rparr> =
     ((201, Entity \<lparr>ix_id = 3, ix_name = JStr ''Widget''\<rparr>),
      ix_items @ [\<lparr>ix_id = 3, ix_name = JStr ''Widget''\<rparr>])"
proof -
  have h1: "list_all (\<lambda>k. truthy (field new_user_req k)) user_required"
    by (simp add: sample_defs new_user_req_def)
  have h2: "list_all (\<lambda>k. truthy (field \<lparr>params = [], body = widget_body\<rparr> k)) item_required"
    by (simp add: sample_defs)
  have h3: "list_all (\<lambda>k. truthy (field \<lparr>params = [], body = widget_body\<rparr> k)) ix_required"
    by (simp add: sample_defs)
  have h1': "\<forall>k\<in>set user_required. truthy (field new_user_req k)"
    using h1 by (simp only: list_all_iff)
  have h2': "\<forall>k\<in>set item_required. truthy (field \<lparr>params = [], body = widget_body\<rparr> k)"
    using h2 by (simp only: list_all_iff)
  have h3': "\<forall>k\<in>set ix_required. truthy (field \<lparr>params = [], body = widget_body\<rparr> k)"
    using h3 by (simp only: list_all_iff)
  have f: "field new_user_req ''username'' = JStr ''alice''"
    "field new_user_req ''firstName'' = JStr ''Alice''"
    "field new_user_req ''lastName'' = JStr ''Liddell''"
    "field new_user_req ''email'' = JStr ''alice@email.com''"
    "field new_user_req ''password'' = JStr ''secret''"
    "field new_user_req ''phone'' = JStr ''555''"
    "field new_user_req ''userStatus'' = JNum 0"
    "field \<lparr>params = [], body = widget_body\<rparr> ''name'' = JStr ''Widget''"
    "field \<lparr>params = [], body = widget_body\<rparr> ''discription'' = JStr ''x''"
    by (simp_all add: sample_defs new_user_req_def)
  have l: "int (length users) + 1 = 2" "int (length items) + 1 = 3"
    "int (length ix_items) + 1 = 3"
    by (simp_all add: users_def items_def ix_items_def)
  from create_appends_next_id [of new_user_req users
      "\<lparr>params = [], body = widget_body\<rparr>" items "\<lparr>params = [], body = widget_body\<rparr>" ix_items]
    h1' h2' h3'
  have "post_user users new_user_req = ((201, Entity (alice 2)), users @ [alice 2])"
    and "ix_post_item ix_items \<lparr>params = [], body = widget_body\<rparr> =
     ((201, Entity \<lparr>ix_id = 3, ix_name = JStr ''Widget''\<rparr>),
      ix_items @ [\<lparr>ix_id = 3, ix_name = JStr ''Widget''\<rparr>])"
    and "post_item items \<lparr>params = [], body = widget_body\<rparr> =
     ((201, Entity \<lparr>item_id = 3, name = JStr ''Widget'', discription = JStr ''x''\<rparr>),
      items @ [\<lparr>item_id = 3, name = JStr ''Widget'', discription = JStr ''x''\<rparr>])"
    by (simp_all add: f l alice_def)
  with h1 h2 h3 show ?thesis by blast
qed

subsection \<open>C7: an id segment that is not a number\<close>

text \<open>
  Claim C7 says that every request whose id segment is non-numeric is answered
  404 and changes nothing.  \<^verbatim>\<open>parseInt\<close> reads the digits a segment starts with
  and drops the rest: the segment \<^verbatim>\<open>10abc\<close> is not numeric, yet
  \<^verbatim>\<open>GET /api/v1/users/10abc\<close> answers 200 with the seed user of id \<open>10\<close>, and
  \<^verbatim>\<open>DELETE /api/v1/users/10abc\<close> removes that user.
\<close>

theorem non_numeric_segment_counterexample:
  "\<not> numeric_segment ''10abc'' \<and>
   get_user users (id_req ''10abc'' []) = ((200, Entity (users ! 0)), users) \<and>
   delete_user users (id_req ''10abc'' []) = ((200, Message ''User deleted''), [])"
  by (simp add: numeric_segment_def get_user_def delete_user_def user_matches_def splice1_def
      parse_defs sample_defs)

text \<open>
  Claim C7 as amended, for every \<^verbatim>\<open>GET\<close>, \<^verbatim>\<open>PUT\<close> and \<^verbatim>\<open>DELETE\<close> by id.  The id
  segment is read by \<^verbatim>\<open>parseInt\<close>, never with a parse error: after leading white
  space and one optional sign, a non-empty run of decimal digits is the value,
  whatever follows it, and with no digit there the value is NaN.  When the value
  is NaN, or is the id of no entity of the collection (so also for a non-numeric
  segment such as \<^verbatim>\<open>7abc\<close> on the seeds), the handler answers 404 with the
  not-found message of its kind and returns the collection as it was.  Two
  requests with the same body whose segments read as the same value are handled
  alike, so a non-numeric segment that starts with the digits of an id in the
  collection is handled as that id: a \<^verbatim>\<open>GET\<close> answers 200 with the first entity
  of that id.
\<close>

theorem id_segment_by_parseInt:
  "((\<forall>u\<in>set us. parseInt (param req ''id'') \<noteq> Some (user_id u)) \<longrightarrow>
      get_user us req = ((404, Message ''User not found''), us) \<and>
      put_user us req = ((404, Message ''User not found''), us) \<and>
      delete_user us req = ((404, Message ''User not found''), us)) \<and>
   ((\<forall>i\<in>set its. parseInt (param req ''id'') \<noteq> Some (item_id i)) \<longrightarrow>
      get_item its req = ((404, Message ''Item not found''), its) \<and>
      put_item its req = ((404, Message ''Item not found''), its) \<and>
      delete_item its req = ((404, Message ''Item not found''), its)) \<and>
   ((\<forall>i\<in>set xs. parseInt (param req ''id'') \<noteq> Some (ix_id i)) \<longrightarrow>
      ix_delete_item xs req = ((404, Message ''Item not found''), xs)) \<and>
   (parseInt (param rn ''id'') = None \<longrightarrow>
      get_user us rn = ((404, Message ''User not found''), us) \<and>
      put_user us rn = ((404, Message ''User not found''), us) \<and>
      delete_user us rn = ((404, Message ''User not found''), us) \<and>
      get_item its rn = ((404, Message ''Item not found''), its) \<and>
      put_item its rn = ((404, Message ''Item not found''), its) \<and>
      delete_item its rn = ((404, Message ''Item not found''), its) \<and>
      ix_delete_item xs rn = ((404, Message ''Item not found''), xs)) \<and>
   (parseInt (param r ''id'') = parseInt (param r' ''id'') \<and> body r = body r' \<longrightarrow>
      get_user us r = get_user us r' \<and> put_user us r = put_user us r' \<and>
      delete_user us r = delete_user us r' \<and>
      get_item its r = get_item its r' \<and> put_item its r = put_item its r' \<and>
      delete_item its r = delete_item its r' \<and>
      ix_delete_item xs r = ix_delete_item xs r') \<and>
   (parseInt (param g ''id'') = Some n \<and> find (\<lambda>u. user_id u = n) us = Some u \<longrightarrow>
      get_user us g = ((200, Entity u), us)) \<and>
   (parseInt (param gi ''id'') = Some m \<and> find (\<lambda>i. item_id i = m) its = Some i \<longrightarrow>
      get_item its gi = ((200, Entity i), its)) \<and>
   (list_all isWhiteSpace ws \<and> ds \<noteq> [] \<and> list_all isDigit ds \<and>
    (rest = [] \<or> \<not> isDigit (hd rest)) \<longrightarrow>
      parseInt (Some (ws @ ds @ rest)) = Some (digitsValue ds) \<and>
      parseInt (Some (ws @ ''+'' @ ds @ rest)) = Some (digitsValue ds) \<and>
      parseInt (Some (ws @ ''-'' @ ds @ rest)) = Some (- digitsValue ds)) \<and>
   (list_all isWhiteSpace ws \<and> (t = [] \<or> \<not> isDigit (hd t)) \<longrightarrow>
      parseInt (Some (ws @ ''+'' @ t)) = None \<and>
      parseInt (Some (ws @ ''-'' @ t)) = None \<and>
      (t = [] \<or> \<not> isWhiteSpace (hd t) \<and> hd t \<noteq> CHR ''+'' \<and> hd t \<noteq> CHR ''-'' \<longrightarrow>
         parseInt (Some (ws @ t)) = None))"
proof (intro conjI)
  show "(\<forall>u\<in>set us. parseInt (param req ''id'') \<noteq> Some (user_id u)) \<longrightarrow>
      get_user us req = ((404, Message ''User not found''), us) \<and>
      put_user us req = ((404, Message ''User not found''), us) \<and>
      delete_user us req = ((404, Message ''User not found''), us)"
    using unheld_id_404(1) [of us req] by blast
  show "(\<forall>i\<in>set its. parseInt (param req ''id'') \<noteq> Some (item_id i)) \<longrightarrow>
      get_item its req = ((404, Message ''Item not found''), its) \<and>
      put_item its req = ((404, Message ''Item not found''), its) \<and>
      delete_item its req = ((404, Message ''Item not found''), its)"
    using unheld_id_404(2) [of its req] by blast
  show "(\<forall>i\<in>set xs. parseInt (param req ''id'') \<noteq> Some (ix_id i)) \<longrightarrow>
      ix_delete_item xs req = ((404, Message ''Item not found''), xs)"
    using unheld_id_404(3) [of xs req] by blast
  show "parseInt (param rn ''id'') = None \<longrightarrow>
      get_user us rn = ((404, Message ''User not found''), us) \<and>
      put_user us rn = ((404, Message ''User not found''), us) \<and>
      delete_user us rn = ((404, Message ''User not found''), us) \<and>
      get_item its rn = ((404, Message ''Item not found''), its) \<and>
      put_item its rn = ((404, Message ''Item not found''), its) \<and>
      delete_item its rn = ((404, Message ''Item not found''), its) \<and>
      ix_delete_item xs rn = ((404, Message ''Item not found''), xs)"
  proof
    assume "parseInt (param rn ''id'') = None"
    then have "\<forall>u\<in>set us. parseInt (param rn ''id'') \<noteq> Some (user_id u)"
      and "\<forall>i\<in>set its. parseInt (param rn ''id'') \<noteq> Some (item_id i)"
      and "\<forall>i\<in>set xs. parseInt (param rn ''id'') \<noteq> Some (ix_id i)"
      by simp_all
    then show "get_user us rn = ((404, Message ''User not found''), us) \<and>
      put_user us rn = ((404, Message ''User not found''), us) \<and>
      delete_user us rn = ((404, Message ''User not found''), us) \<and>
      get_item its rn = ((404, Message ''Item not found''), its) \<and>
      put_item its rn = ((404, Message ''Item not found''), its) \<and>
      delete_item its rn = ((404, Message ''Item not found''), its) \<and>
      ix_delete_item xs rn = ((404, Message ''Item not found''), xs)"
      using unheld_id_404(1) [of us rn] unheld_id_404(2) [of its rn] unheld_id_404(3) [of xs rn]
      by blast
  qed
  show "parseInt (param r ''id'') = parseInt (param r' ''id'') \<and> body r = body r' \<longrightarrow>
      get_user us r = get_user us r' \<and> put_user us r = put_user us r' \<and>
      delete_user us r = delete_user us r' \<and>
      get_item its r = get_item its r' \<and> put_item its r = put_item its r' \<and>
      delete_item its r = delete_item its r' \<and>
      ix_delete_item xs r = ix_delete_item xs r'"
    using same_parse_same_handling [of r r'] by blast
  show "parseInt (param g ''id'') = Some n \<and> find (\<lambda>u. user_id u = n) us = Some u \<longrightarrow>
      get_user us g = ((200, Entity u), us)"
    using held_id_found(1) [of g n us u] by blast
  show "parseInt (param gi ''id'') = Some m \<and> find (\<lambda>i. item_id i = m) its = Some i \<longrightarrow>
      get_item its gi = ((200, Entity i), its)"
    using held_id_found(2) [of gi m its i] by blast
  show "list_all isWhiteSpace ws \<and> ds \<noteq> [] \<and> list_all isDigit ds \<and>
    (rest = [] \<or> \<not> isDigit (hd rest)) \<longrightarrow>
      parseInt (Some (ws @ ds @ rest)) = Some (digitsValue ds) \<and>
      parseInt (Some (ws @ ''+'' @ ds @ rest)) = Some (digitsValue ds) \<and>
      parseInt (Some (ws @ ''-'' @ ds @ rest)) = Some (- digitsValue ds)"
    using parseInt_digit_prefix [of ws ds rest] by blast
  show "list_all isWhiteSpace ws \<and> (t = [] \<or> \<not> isDigit (hd t)) \<longrightarrow>
      parseInt (Some (ws @ ''+'' @ t)) = None \<and>
      parseInt (Some (ws @ ''-'' @ t)) = None \<and>
      (t = [] \<or> \<not> isWhiteSpace (hd t) \<and> hd t \<noteq> CHR ''+'' \<and> hd t \<noteq> CHR ''-'' \<longrightarrow>
         parseInt (Some (ws @ t)) = None)"
  proof (intro impI conjI)
    assume a: "list_all isWhiteSpace ws \<and> (t = [] \<or> \<not> isDigit (hd t))"
    from a have w: "list_all isWhiteSpace ws" ..
    from a have d: "t = [] \<or> \<not> isDigit (hd t)" ..
    show "parseInt (Some (ws @ ''+'' @ t)) = None" by (rule parseInt_no_digit(1) [OF w d])
    show "parseInt (Some (ws @ ''-'' @ t)) = None" by (rule parseInt_no_digit(2) [OF w d])
    assume "t = [] \<or> \<not> isWhiteSpace (hd t) \<and> hd t \<noteq> CHR ''+'' \<and> hd t \<noteq> CHR ''-''"
    then show "parseInt (Some (ws @ t)) = None" by (rule parseInt_no_digit(3) [OF w d])
  qed
qed

text \<open>
  C7 as amended, on the seeds: \<^verbatim>\<open>7abc\<close> reads as \<open>7\<close>, which no seed entity has,
  and \<^verbatim>\<open>abc\<close> as NaN, both answered 404; \<^verbatim>\<open>10abc\<close> is handled as \<^verbatim>\<open>10\<close> and
  \<^verbatim>\<open>2x\<close> finds the second item; and the readings of \<^verbatim>\<open>parseInt\<close> with a
  leading space, with and without a sign.
\<close>

theorem id_segment_by_parseInt_witness:
  "\<not> numeric_segment ''7abc'' \<and>
   parseInt (param (id_req ''7abc'' new_user_body) ''id'') = Some 7 \<and>
   list_all (\<lambda>u. parseInt (param (id_req ''7abc'' new_user_body) ''id'') \<noteq> Some (user_id u)) users \<and>
   list_all (\<lambda>i. parseInt (param (id_req ''7abc'' new_user_body) ''id'') \<noteq> Some (item_id i)) items \<and>
   list_all (\<lambda>i. parseInt (param (id_req ''7abc'' new_user_body) ''id'') \<noteq> Some (ix_id i)) ix_items \<and>
   get_user users (id_req ''7abc'' new_user_body) = ((404, Message ''User not found''), users) \<and>
   put_user users (id_req ''7abc'' new_user_body) = ((404, Message ''User not found''), users) \<and>
   delete_user users (id_req ''7abc'' new_user_body) = ((404, Message ''User not found''), users) \<and>
   get_item items (id_req ''7abc'' new_user_body) = ((404, Message ''Item not found''), items) \<and>
   put_item items (id_req ''7abc'' new_user_body) = ((404, Message ''Item not found''), items) \<and>
   delete_item items (id_req ''7abc'' new_user_body) = ((404, Message ''Item not found''), items) \<and>
   ix_delete_item ix_items (id_req ''7abc'' new_user_body) =
     ((404, Message ''Item not found''), ix_items) \<and>
   parseInt (param (id_req ''abc'' new_user_body) ''id'') = None \<and>
   get_user users (id_req ''abc'' new_user_body) = ((404, Message ''User not found''), users) \<and>
   put_user users (id_req ''abc'' new_user_body) = ((404, Message ''User not found''), users) \<and>
   delete_user users (id_req ''abc'' new_user_body) = ((404, Message ''User not found''), users) \<and>
   get_item items (id_req ''abc'' new_user_body) = ((404, Message ''Item not found''), items) \<and>
   put_item items (id_req ''abc'' new_user_body) = ((404, Message ''Item not found''), items) \<and>
   delete_item items (id_req ''abc'' new_user_body) = ((404, Message ''Item not found''), items) \<and>
   ix_delete_item ix_items (id_req ''abc'' new_user_body) =
     ((404, Message ''Item not found''), ix_items) \<and>
   parseInt (param (id_req ''10abc'' new_user_body) ''id'') =
     parseInt (param (id_req ''10'' new_user_body) ''id'') \<and>
   get_user users (id_req ''10abc'' new_user_body) = get_user users (id_req ''10'' new_user_body) \<and>
   put_user users (id_req ''10abc'' new_user_body) = put_user users (id_req ''10'' new_user_body) \<and>
   delete_user users (id_req ''10abc'' new_user_body) =
     delete_user users (id_req ''10'' new_user_body) \<and>
   find (\<lambda>u. user_id u = 10) users = Some (users ! 0) \<and>
   get_user users (id_req ''10abc'' new_user_body) = ((200, Entity (users ! 0)), users) \<and>
   parseInt (param (id_req ''2x'' widget_body) ''id'') = Some 2 \<and>
   find (\<lambda>i. item_id i = 2) items = Some (items ! 1) \<and>
   get_item items (id_req ''2x'' widget_body) = ((200, Entity (items ! 1)), items) \<and>
   list_all isWhiteSpace '' '' \<and> list_all isDigit ''10'' \<and> \<not> isDigit (hd ''abc'') \<and>
   digitsValue ''10'' = 10 \<and>
   parseInt (Some ('' '' @ ''10'' @ ''abc'')) = Some (digitsValue ''10'') \<and>
   parseInt (Some ('' '' @ ''+'' @ ''10'' @ ''abc'')) = Some (digitsValue ''10'') \<and>
   parseInt (Some ('' '' @ ''-'' @ ''10'' @ ''abc'')) = Some (- digitsValue ''10'') \<and>
   parseInt (Some ('' '' @ ''+'' @ ''abc'')) = None \<and>
   parseInt (Some ('' '' @ ''-'' @ ''abc'')) = None \<and>
   parseInt (Some ('' '' @ ''abc'')) = None"
proof -
  let ?r7 = "id_req ''7abc'' new_user_body"
  let ?ra = "id_req ''abc'' new_user_body"
  let ?r10x = "id_req ''10abc'' new_user_body"
  let ?r10 = "id_req ''10'' new_user_body"
  let ?r2x = "id_req ''2x'' widget_body"
  have n: "\<not> numeric_segment ''7abc''"
    by (simp add: numeric_segment_def isDigit_def)
  have p7: "parseInt (param ?r7 ''id'') = Some 7"
    by (simp add: parse_defs id_req_def)
  have u7: "list_all (\<lambda>u. parseInt (param ?r7 ''id'') \<noteq> Some (user_id u)) users"
    and i7: "list_all (\<lambda>i. parseInt (param ?r7 ''id'') \<noteq> Some (item_id i)) items"
    and x7: "list_all (\<lambda>i. parseInt (param ?r7 ''id'') \<noteq> Some (ix_id i)) ix_items"
    by (simp_all add: p7 users_def items_def ix_items_def)
  have u7': "\<forall>u\<in>set users. parseInt (param ?r7 ''id'') \<noteq> Some (user_id u)"
    using u7 by (simp only: list_all_iff)
  have i7': "\<forall>i\<in>set items. parseInt (param ?r7 ''id'') \<noteq> Some (item_id i)"
    using i7 by (simp only: list_all_iff)
  have x7': "\<forall>i\<in>set ix_items. parseInt (param ?r7 ''id'') \<noteq> Some (ix_id i)"
    using x7 by (simp only: list_all_iff)
  have pa: "parseInt (param ?ra ''id'') = None"
    by (simp add: parse_defs id_req_def)
  have p10: "parseInt (param ?r10x ''id'') = parseInt (param ?r10 ''id'')"
    by (simp add: parse_defs id_req_def)
  have b10: "body ?r10x = body ?r10"
    by (simp add: id_req_def)
  have g10: "parseInt (param ?r10x ''id'') = Some 10"
    by (simp add: parse_defs id_req_def)
  have f10: "find (\<lambda>u. user_id u = 10) users = Some (users ! 0)"
    by (simp add: users_def)
  have g2: "parseInt (param ?r2x ''id'') = Some 2"
    by (simp add: parse_defs id_req_def)
  have f2: "find (\<lambda>i. item_id i = 2) items = Some (items ! 1)"
    by (simp add: items_def)
  have w: "list_all isWhiteSpace '' ''" and d: "list_all isDigit ''10''"
    and ne: "''10'' \<noteq> []" and a: "\<not> isDigit (hd ''abc'')"
    and a': "\<not> isWhiteSpace (hd ''abc'')" "hd ''abc'' \<noteq> CHR ''+''" "hd ''abc'' \<noteq> CHR ''-''"
    by (simp_all add: isWhiteSpace_def isDigit_def)
  have v: "digitsValue ''10'' = 10"
    by (simp add: digitsValue_def digitVal_def)
  note T = id_segment_by_parseInt [where req = ?r7 and us = users and its = items
      and xs = ix_items and rn = ?ra and r = ?r10x and r' = ?r10 and g = ?r10x and n = 10
      and u = "users ! 0" and gi = ?r2x and m = 2 and i = "items ! 1" and ws = "'' ''"
      and ds = "''10''" and rest = "''abc''" and t = "''abc''"]
  from T u7' i7' x7' pa p10 b10 g10 f10 g2 f2 w d ne a a'
  have c: "get_user users ?r7 = ((404, Message ''User not found''), users)"
    "put_user users ?r7 = ((404, Message ''User not found''), users)"
    "delete_user users ?r7 = ((404, Message ''User not found''), users)"
    "get_item items ?r7 = ((404, Message ''Item not found''), items)"
    "put_item items ?r7 = ((404, Message ''Item not found''), items)"
    "delete_item items ?r7 = ((404, Message ''Item not found''), items)"
    "ix_delete_item ix_items ?r7 = ((404, Message ''Item not found''), ix_items)"
    "get_user users ?ra = ((404, Message ''User not found''), users)"
    "put_user users ?ra = ((404, Message ''User not found''), users)"
    "delete_user users ?ra = ((404, Message ''User not found''), users)"
    "get_item items ?ra = ((404, Message ''Item not found''), items)"
    "put_item items ?ra = ((404, Message ''Item not found''), items)"
    "delete_item items ?ra = ((404, Message ''Item not found''), items)"
    "ix_delete_item ix_items ?ra = ((404, Message ''Item not found''), ix_items)"
    "get_user users ?r10x = get_user users ?r10"
    "put_user users ?r10x = put_user users ?r10"
    "delete_user users ?r10x = delete_user users ?r10"
    "get_user users ?r10x = ((200, Entity (users ! 0)), users)"
    "get_item items ?r2x = ((200, Entity (items ! 1)), items)"
    "parseInt (Some ('' '' @ ''10'' @ ''abc'')) = Some (digitsValue ''10'')"
    "parseInt (Some ('' '' @ ''+'' @ ''10'' @ ''abc'')) = Some (digitsValue ''10'')"
    "parseInt (Some ('' '' @ ''-'' @ ''10'' @ ''abc'')) = Some (- digitsValue ''10'')"
    "parseInt (Some ('' '' @ ''+'' @ ''abc'')) = None"
    "parseInt (Some ('' '' @ ''-'' @ ''abc'')) = None"
    "parseInt (Some ('' '' @ ''abc'')) = None"
    by blast+
  from n p7 u7 i7 x7 pa p10 f10 g2 f2 w d a v c show ?thesis
    by (intro conjI)
qed

subsection \<open>C8: the default of \<^verbatim>\<open>userStatus\<close>\<close>

text \<open>
  Claim C8: a user create or update that passes the required-field check stores
  the supplied \<^verbatim>\<open>userStatus\<close> when it is truthy and the number \<open>1\<close> when it is
  absent or falsy, the number \<open>0\<close> included; the stored user is the one the
  response carries and, after an update, the one a get by the same id returns.
\<close>

theorem userStatus_default:
  assumes "\<forall>k\<in>set user_required. truthy (field req k)"
  shows "(\<exists>e. post_user us req = ((201, Entity e), us @ [e]) \<and>
            userStatus e =
              (if truthy (field req ''userStatus'') then field req ''userStatus'' else JNum 1)) \<and>
         ((\<exists>u\<in>set us. user_matches req u) \<longrightarrow>
            (\<exists>e i. put_user us req = ((200, Entity e), us[i := e]) \<and> i < length us \<and>
               get_user (us[i := e]) req = ((200, Entity e), us[i := e]) \<and>
               userStatus e =
                 (if truthy (field req ''userStatus'') then field req ''userStatus'' else JNum 1)))"
proof (intro conjI impI)
  from assms have ok: "\<not> user_fields_missing req"
    by (simp only: user_fields_missing_iff) blast
  then show "\<exists>e. post_user us req = ((201, Entity e), us @ [e]) \<and>
      userStatus e = (if truthy (field req ''userStatus'') then field req ''userStatus'' else JNum 1)"
    by (simp add: post_user_def Let_def js_or_def)
  assume "\<exists>u\<in>set us. user_matches req u"
  then obtain i where i: "findIndex (user_matches req) us = Some i"
    using findIndex_None_iff [of "user_matches req" us] by auto
  let ?e = "assign_user req (us ! i)"
  from findIndex_SomeD [OF i] have lt: "i < length us" and m: "user_matches req (us ! i)"
    by auto
  have i': "findIndex (user_matches req) (us[i := ?e]) = Some i"
    by (rule findIndex_update [OF i]) (simp add: m)
  have g: "get_user (us[i := ?e]) req = ((200, Entity ?e), us[i := ?e])"
    using lt by (simp add: get_user_def find_findIndex i')
  have s: "userStatus ?e =
      (if truthy (field req ''userStatus'') then field req ''userStatus'' else JNum 1)"
    by (simp add: assign_user_def js_or_def)
  from put_user_found [OF i ok] lt g s
  show "\<exists>e i. put_user us req = ((200, Entity e), us[i := e]) \<and> i < length us \<and>
      get_user (us[i := e]) req = ((200, Entity e), us[i := e]) \<and>
      userStatus e = (if truthy (field req ''userStatus'') then field req ''userStatus'' else JNum 1)"
    by blast
qed

text \<open>
  C8 with \<^verbatim>\<open>userStatus: 0\<close> on the seed, as a create and as an update of user
  \<open>10\<close>: the stored status is \<open>1\<close>.
\<close>

theorem userStatus_default_witness:
  "list_all (\<lambda>k. truthy (field (id_req ''10'' new_user_body) k)) user_required \<and>
   field (id_req ''10'' new_user_body) ''userStatus'' = JNum 0 \<and>
   (\<exists>u\<in>set users. user_matches (id_req ''10'' new_user_body) u) \<and>
   (\<exists>e. post_user users (id_req ''10'' new_user_body) = ((201, Entity e), users @ [e]) \<and>
        userStatus e = JNum 1) \<and>
   (\<exists>e i. put_user users (id_req ''10'' new_user_body) = ((200, Entity e), users[i := e]) \<and>
        userStatus e = JNum 1)"
proof -
  have h1: "\<forall>k\<in>set user_required. truthy (field (id_req ''10'' new_user_body) k)"
    by (simp add: sample_defs)
  have h2: "field (id_req ''10'' new_user_body) ''userStatus'' = JNum 0"
    by (simp add: sample_defs)
  have h3: "\<exists>u\<in>set users. user_matches (id_req ''10'' new_user_body) u"
    by (simp add: user_matches_def parse_defs sample_defs)
  have h1': "list_all (\<lambda>k. truthy (field (id_req ''10'' new_user_body) k)) user_required"
    using h1 by (simp only: list_all_iff)
  have t: "\<not> truthy (field (id_req ''10'' new_user_body) ''userStatus'')"
    by (simp add: h2)
  from userStatus_default [OF h1, of users] h3
  have "(\<exists>e. post_user users (id_req ''10'' new_user_body) = ((201, Entity e), users @ [e]) \<and>
        userStatus e = JNum 1) \<and>
   (\<exists>e i. put_user users (id_req ''10'' new_user_body) = ((200, Entity e), users[i := e]) \<and>
        userStatus e = JNum 1)"
    by (simp only: t if_False) blast
  with h1' h2 h3 show ?thesis by blast
qed

subsection \<open>C9: what an update leaves alone\<close>

text \<open>
  Claim C9: an update answered 200 overwrites the fields of one entity, the first
  whose id matches, with the fields of the payload; that entity keeps its id,
  every other entity is as before, and so are the length and the order of the
  collection: users and items.
\<close>

theorem put_frame:
  "(put_user us req = ((200, p), us') \<longrightarrow>
      length us' = length us \<and> map user_id us' = map user_id us \<and>
      (\<exists>i<length us. findIndex (user_matches req) us = Some i \<and> p = Entity (us' ! i) \<and>
         us' ! i = assign_user req (us ! i) \<and>
         (\<forall>j<length us. j \<noteq> i \<longrightarrow> us' ! j = us ! j))) \<and>
   (put_item its rq = ((200, q), its') \<longrightarrow>
      length its' = length its \<and> map item_id its' = map item_id its \<and>
      (\<exists>i<length its. findIndex (item_matches rq) its = Some i \<and> q = Entity (its' ! i) \<and>
         its' ! i = assign_item rq (its ! i) \<and>
         (\<forall>j<length its. j \<noteq> i \<longrightarrow> its' ! j = its ! j)))"
proof (intro conjI impI)
  assume a: "put_user us req = ((200, p), us')"
  then obtain i where i: "findIndex (user_matches req) us = Some i"
    and ok: "\<not> user_fields_missing req"
    by (auto simp: put_user_def split: option.splits if_splits)
  from findIndex_SomeD [OF i] have lt: "i < length us" by simp
  from a put_user_found [OF i ok]
  have e: "us' = us[i := assign_user req (us ! i)]" "p = Entity (assign_user req (us ! i))"
    by simp_all
  show "length us' = length us" by (simp add: e)
  show "map user_id us' = map user_id us"
    using lt by (simp add: e map_update list_update_same_conv)
  show "\<exists>i<length us. findIndex (user_matches req) us = Some i \<and> p = Entity (us' ! i) \<and>
         us' ! i = assign_user req (us ! i) \<and>
         (\<forall>j<length us. j \<noteq> i \<longrightarrow> us' ! j = us ! j)"
    using lt i by (simp add: e)
next
  assume a: "put_item its rq = ((200, q), its')"
  then obtain i where i: "findIndex (item_matches rq) its = Some i"
    and ok: "\<not> item_fields_missing rq"
    by (auto simp: put_item_def split: option.splits if_splits)
  from findIndex_SomeD [OF i] have lt: "i < length its" by simp
  from a put_item_found [OF i ok]
  have e: "its' = its[i := assign_item rq (its ! i)]" "q = Entity (assign_item rq (its ! i))"
    by simp_all
  show "length its' = length its" by (simp add: e)
  show "map item_id its' = map item_id its"
    using lt by (simp add: e map_update list_update_same_conv)
  show "\<exists>i<length its. findIndex (item_matches rq) its = Some i \<and> q = Entity (its' ! i) \<and>
         its' ! i = assign_item rq (its ! i) \<and>
         (\<forall>j<length its. j \<noteq> i \<longrightarrow> its' ! j = its ! j)"
    using lt i by (simp add: e)
qed

text \<open>
  C9 at \<^verbatim>\<open>PUT /api/v1/users/10\<close> on the seed user and \<^verbatim>\<open>PUT /api/v1/items/2\<close>
  on the seed items: the first item is untouched.
\<close>

theorem put_frame_witness:
  "put_user users (id_req ''10'' new_user_body) = ((200, Entity (alice 10)), [alice 10]) \<and>
   length [alice 10] = length users \<and> map user_id [alice 10] = map user_id users \<and>
   put_item items (id_req ''2'' widget_body) =
     ((200, Entity \<lparr>item_id = 2, name = JStr ''Widget'', discription = JStr ''x''\<rparr>),
      [items ! 0, \<lparr>item_id = 2, name = JStr ''Widget'', discription = JStr ''x''\<rparr>]) \<and>
   map item_id [items ! 0, \<lparr>item_id = 2, name = JStr ''Widget'', discription = JStr ''x''\<rparr>] =
     map item_id items"
proof -
  have h1: "put_user users (id_req ''10'' new_user_body) = ((200, Entity (alice 10)), [alice 10])"
    by (simp add: put_user_def user_matches_def user_fields_missing_def assign_user_def
        js_or_def alice_def parse_defs sample_defs)
  have h2: "put_item items (id_req ''2'' widget_body) =
     ((200, Entity \<lparr>item_id = 2, name = JStr ''Widget'', discription = JStr ''x''\<rparr>),
      [items ! 0, \<lparr>item_id = 2, name = JStr ''Widget'', discription = JStr ''x''\<rparr>])"
    by (simp add: put_item_def item_matches_def item_fields_missing_def assign_item_def
        parse_defs sample_defs)
  from put_frame [of users "id_req ''10'' new_user_body" "Entity (alice 10)" "[alice 10]"
      items "id_req ''2'' widget_body"
      "Entity \<lparr>item_id = 2, name = JStr ''Widget'', discription = JStr ''x''\<rparr>"
      "[items ! 0, \<lparr>item_id = 2, name = JStr ''Widget'', discription = JStr ''x''\<rparr>]"]
    h1 h2
  show ?thesis by blast
qed

subsection \<open>C10: the literal routes of \<^verbatim>\<open>index.js\<close>\<close>

text \<open>
  Claim C10: in \<^verbatim>\<open>index.js\<close> the get-by-id handler is registered at
  \<^verbatim>\<open>/api/v1/items/get\<close> and the update handler at \<^verbatim>\<open>/api/v1/items/put\<close>.  Neither
  path has a parameter, so a request that matches one binds no \<^verbatim>\<open>id\<close>; the
  lookup compares every id with NaN, and the handler answers 404
  \<^verbatim>\<open>Item not found\<close> and returns the collection as it was, whatever the body and
  the collection are.
\<close>

theorem ix_literal_routes_404:
  "(match_path [Lit ''api'', Lit ''v1'', Lit ''items'', Lit ''get''] path = Some ps \<longrightarrow>
      param \<lparr>params = ps, body = b\<rparr> ''id'' = None \<and>
      ix_get_item xs \<lparr>params = ps, body = b\<rparr> = ((404, Message ''Item not found''), xs)) \<and>
   (match_path [Lit ''api'', Lit ''v1'', Lit ''items'', Lit ''put''] path' = Some ps' \<longrightarrow>
      param \<lparr>params = ps', body = b\<rparr> ''id'' = None \<and>
      ix_put_item xs \<lparr>params = ps', body = b\<rparr> = ((404, Message ''Item not found''), xs)) \<and>
   index_js GET [''api'', ''v1'', ''items'', ''get''] b xs =
     Some ((404, Message ''Item not found''), xs) \<and>
   index_js PUT [''api'', ''v1'', ''items'', ''put''] b xs =
     Some ((404, Message ''Item not found''), xs)"
proof (intro conjI impI)
  assume "match_path [Lit ''api'', Lit ''v1'', Lit ''items'', Lit ''get''] path = Some ps"
  then have "ps = []"
    using match_path_literal [of "[''api'', ''v1'', ''items'', ''get'']" path ps] by simp
  then show n: "param \<lparr>params = ps, body = b\<rparr> ''id'' = None" by (simp add: param_def)
  show "ix_get_item xs \<lparr>params = ps, body = b\<rparr> = ((404, Message ''Item not found''), xs)"
    by (rule ix_get_item_no_id [OF n])
next
  assume "match_path [Lit ''api'', Lit ''v1'', Lit ''items'', Lit ''put''] path' = Some ps'"
  then have "ps' = []"
    using match_path_literal [of "[''api'', ''v1'', ''items'', ''put'']" path' ps'] by simp
  then show n: "param \<lparr>params = ps', body = b\<rparr> ''id'' = None" by (simp add: param_def)
  show "ix_put_item xs \<lparr>params = ps', body = b\<rparr> = ((404, Message ''Item not found''), xs)"
    by (rule ix_put_item_no_id [OF n])
next
  have n: "param \<lparr>params = [], body = b\<rparr> ''id'' = None" by (simp add: param_def)
  show "index_js GET [''api'', ''v1'', ''items'', ''get''] b xs =
     Some ((404, Message ''Item not found''), xs)"
    by (simp add: index_js_def ix_routes_def ix_get_item_no_id [OF n])
  show "index_js PUT [''api'', ''v1'', ''items'', ''put''] b xs =
     Some ((404, Message ''Item not found''), xs)"
    by (simp add: index_js_def ix_routes_def ix_put_item_no_id [OF n])
qed

text \<open>C10 at the two paths themselves, with a valid body, on the seed items.\<close>

theorem ix_literal_routes_404_witness:
  "match_path [Lit ''api'', Lit ''v1'', Lit ''items'', Lit ''get'']
     [''api'', ''v1'', ''items'', ''get''] = Some [] \<and>
   ix_get_item ix_items \<lparr>params = [], body = widget_body\<rparr> =
     ((404, Message ''Item not found''), ix_items) \<and>
   match_path [Lit ''api'', Lit ''v1'', Lit ''items'', Lit ''put'']
     [''api'', ''v1'', ''items'', ''put''] = Some [] \<and>
   ix_put_item ix_items \<lparr>params = [], body = widget_body\<rparr> =
     ((404, Message ''Item not found''), ix_items)"
proof -
  have h1: "match_path [Lit ''api'', Lit ''v1'', Lit ''items'', Lit ''get'']
     [''api'', ''v1'', ''items'', ''get''] = Some []"
    by simp
  have h2: "match_path [Lit ''api'', Lit ''v1'', Lit ''items'', Lit ''put'']
     [''api'', ''v1'', ''items'', ''put''] = Some []"
    by simp
  from ix_literal_routes_404 [of "[''api'', ''v1'', ''items'', ''get'']" "[]" widget_body ix_items
      "[''api'', ''v1'', ''items'', ''put'']" "[]"] h1 h2
  show ?thesis by blast
qed

end
